theory Spec2Isabelle
  imports Complex_Main
begin

section \<open>Python exceptions\<close>

text \<open>
  The exceptions the two programs can meet: the backend client's timeouts and failures,
  the two a malformed backend payload causes, the database driver's, and the plain
  \<^verbatim>\<open>Exception\<close> with its message.
\<close>

datatype py_exception =
    ReadTimeoutError
  | ConnectTimeoutError
  | EndpointConnectionError
  | ClientError string
  | JSONDecodeError
  | AttributeError
  | OperationalError
  | DataError
  | IntegrityError
  | ProgrammingError
  | Exception string

section \<open>The chat-completion gateway (docker/bedrock-gateway/app.py)\<close>

subsection \<open>JSON values\<close>

text \<open>
  The values Python's \<^verbatim>\<open>json\<close> module reads and writes. A dict is an association
  list in insertion order, read with \<open>map_of\<close>; a Python \<^verbatim>\<open>float\<close> is kept as the
  rational it denotes (the gateway never computes with it, it only passes it on).
\<close>

datatype json =
    JNull
  | JBool bool
  | JInt int
  | JFloat rat
  | JStr string
  | JArr "json list"
  | JObj "(string \<times> json) list"

subsection \<open>The request classes\<close>

text \<open>
  \<^verbatim>\<open>
  class ChatMessage(BaseModel):
      role: str
      content: str

  class ChatRequest(BaseModel):
      model: str
      messages: list[ChatMessage]
      temperature: float = 0.7
      max_tokens: int = 1000
  \<close>
\<close>

record ChatMessage =
  role :: string
  content :: string

record ChatRequest =
  model :: string
  messages :: "ChatMessage list"
  temperature :: rat
  max_tokens :: int

text \<open>
  Constructing the classes from untyped input is pydantic's field-by-field validation
  against the declared types. The classes declare the types and two defaults and
  nothing else: no validator, no constraint, no configuration. What the program fixes
  is therefore which keys are read, which are required, which defaults apply, that
  \<^verbatim>\<open>messages\<close> is a list of objects, and that keys the class does not declare are
  ignored (the default of \<^verbatim>\<open>BaseModel\<close>). Which JSON scalars the library takes for a
  \<^verbatim>\<open>str\<close>, a \<^verbatim>\<open>float\<close> or an \<^verbatim>\<open>int\<close>, and as which value (it converts some
  values of other types, differently in its versions and modes), is the library's
  doing and a parameter here: each validator returns the value of the declared type,
  or \<open>None\<close> when the library refuses the input.
\<close>

record validators =
  str_validator :: "json \<Rightarrow> string option"
  float_validator :: "json \<Rightarrow> rat option"
  int_validator :: "json \<Rightarrow> int option"

text \<open>
  Every failure is recorded with the place it occurred, and all of them are collected.
\<close>

datatype loc = Key string | Idx nat

datatype error_type = missing | type_error

type_synonym error_detail = "loc list \<times> error_type"

datatype ValidationError = ValidationError "error_detail list"

definition errors_of :: "error_detail list + 'a \<Rightarrow> error_detail list" where
  "errors_of r = (case r of Inl es \<Rightarrow> es | Inr _ \<Rightarrow> [])"

definition at_loc :: "loc \<Rightarrow> error_detail list + 'a \<Rightarrow> error_detail list + 'a" where
  "at_loc l r = (case r of Inl es \<Rightarrow> Inl (map (\<lambda>(p, t). (l # p, t)) es) | Inr v \<Rightarrow> Inr v)"

text \<open>A field without a default is required; a field with one takes it when the key is absent.\<close>

definition str_field ::
  "validators \<Rightarrow> (string \<times> json) list \<Rightarrow> string \<Rightarrow> error_detail list + string" where
  "str_field lib d k =
     (case map_of d k of
        None \<Rightarrow> Inl [([Key k], missing)]
      | Some v \<Rightarrow>
          (case str_validator lib v of
             Some s \<Rightarrow> Inr s
           | None \<Rightarrow> Inl [([Key k], type_error)]))"

definition float_field ::
  "validators \<Rightarrow> (string \<times> json) list \<Rightarrow> string \<Rightarrow> rat \<Rightarrow> error_detail list + rat" where
  "float_field lib d k dflt =
     (case map_of d k of
        None \<Rightarrow> Inr dflt
      | Some v \<Rightarrow>
          (case float_validator lib v of
             Some x \<Rightarrow> Inr x
           | None \<Rightarrow> Inl [([Key k], type_error)]))"

definition int_field ::
  "validators \<Rightarrow> (string \<times> json) list \<Rightarrow> string \<Rightarrow> int \<Rightarrow> error_detail list + int" where
  "int_field lib d k dflt =
     (case map_of d k of
        None \<Rightarrow> Inr dflt
      | Some v \<Rightarrow>
          (case int_validator lib v of
             Some n \<Rightarrow> Inr n
           | None \<Rightarrow> Inl [([Key k], type_error)]))"

definition parse_ChatMessage :: "validators \<Rightarrow> json \<Rightarrow> error_detail list + ChatMessage" where
  "parse_ChatMessage lib v =
     (case v of
        JObj d \<Rightarrow>
          (case (str_field lib d ''role'', str_field lib d ''content'') of
             (Inr r, Inr c) \<Rightarrow> Inr \<lparr>role = r, content = c\<rparr>
           | (r, c) \<Rightarrow> Inl (errors_of r @ errors_of c))
      | _ \<Rightarrow> Inl [([], type_error)])"

fun parse_messages ::
  "validators \<Rightarrow> nat \<Rightarrow> json list \<Rightarrow> error_detail list + ChatMessage list" where
  "parse_messages lib i [] = Inr []"
| "parse_messages lib i (v # vs) =
     (case (at_loc (Idx i) (parse_ChatMessage lib v), parse_messages lib (Suc i) vs) of
        (Inr m, Inr ms) \<Rightarrow> Inr (m # ms)
      | (m, ms) \<Rightarrow> Inl (errors_of m @ errors_of ms))"

definition messages_field ::
  "validators \<Rightarrow> (string \<times> json) list \<Rightarrow> error_detail list + ChatMessage list" where
  "messages_field lib d =
     (case map_of d ''messages'' of
        None \<Rightarrow> Inl [([Key ''messages''], missing)]
      | Some (JArr vs) \<Rightarrow> at_loc (Key ''messages'') (parse_messages lib 0 vs)
      | Some _ \<Rightarrow> Inl [([Key ''messages''], type_error)])"

definition parse_ChatRequest :: "validators \<Rightarrow> json \<Rightarrow> ValidationError + ChatRequest" where
  "parse_ChatRequest lib v =
     (case v of
        JObj d \<Rightarrow>
          (case (str_field lib d ''model'', messages_field lib d,
                 float_field lib d ''temperature'' (7 / 10), int_field lib d ''max_tokens'' 1000) of
             (Inr m, Inr ms, Inr t, Inr n) \<Rightarrow>
               Inr \<lparr>model = m, messages = ms, temperature = t, max_tokens = n\<rparr>
           | (m, ms, t, n) \<Rightarrow>
               Inl (ValidationError (errors_of m @ errors_of ms @ errors_of t @ errors_of n)))
      | _ \<Rightarrow> Inl (ValidationError [([], type_error)]))"

subsection \<open>The handler\<close>

text \<open>
  \<^verbatim>\<open>"\n".join(parts)\<close>: the parts with the separator between neighbours, nothing
  before the first and nothing after the last.
\<close>

fun str_join :: "string \<Rightarrow> string list \<Rightarrow> string" where
  "str_join sep [] = []"
| "str_join sep [x] = x"
| "str_join sep (x # y # ys) = x @ sep @ str_join sep (y # ys)"

text \<open>\<^verbatim>\<open>f"{msg.role}: {msg.content}"\<close>\<close>

definition render :: "ChatMessage \<Rightarrow> string" where
  "render msg = role msg @ '': '' @ content msg"

definition prompt :: "ChatRequest \<Rightarrow> string" where
  "prompt request = str_join [CHR 0x0A] (map render (messages request))"

text \<open>
  The dict handed to \<^verbatim>\<open>json.dumps\<close> for the \<^verbatim>\<open>body\<close> argument of
  \<^verbatim>\<open>invoke_model\<close>. The model keeps the value; the text sent is its serialisation.
\<close>

definition body :: "ChatRequest \<Rightarrow> json" where
  "body request =
     JObj [(''prompt'', JStr (prompt request)),
           (''max_tokens_to_sample'', JInt (max_tokens request)),
           (''temperature'', JFloat (temperature request))]"

text \<open>
  The backend is outside the program: \<^verbatim>\<open>bedrock.invoke_model(modelId=..., body=...)\<close>
  followed by \<^verbatim>\<open>response['body'].read()\<close> either raises, or yields bytes that
  \<^verbatim>\<open>json.loads\<close> rejects, or yields bytes that \<^verbatim>\<open>json.loads\<close> turns into a value.
  A backend fixture is a function from the two arguments of the call to one of these.
\<close>

datatype backend_outcome =
    Raises py_exception
  | Body_not_json
  | Body json

type_synonym backend = "string \<Rightarrow> json \<Rightarrow> backend_outcome"

text \<open>
  The \<^verbatim>\<open>try\<close> block, lines 23 to 47. \<^verbatim>\<open>result.get("completion", "")\<close> is the
  value stored under the key when there is one and the empty string otherwise; on a
  value that is not a dict there is no \<^verbatim>\<open>get\<close> and the attribute lookup raises.
  The finish reason is the constant \<^verbatim>\<open>"stop"\<close>.
\<close>

definition dict_get :: "(string \<times> json) list \<Rightarrow> string \<Rightarrow> json \<Rightarrow> json" where
  "dict_get d k dflt = (case map_of d k of None \<Rightarrow> dflt | Some v \<Rightarrow> v)"

definition try_block :: "backend \<Rightarrow> ChatRequest \<Rightarrow> py_exception + json" where
  "try_block bedrock request =
     (case bedrock (model request) (body request) of
        Raises e \<Rightarrow> Inl e
      | Body_not_json \<Rightarrow> Inl JSONDecodeError
      | Body result \<Rightarrow>
          (case result of
             JObj d \<Rightarrow>
               Inr (JObj
                 [(''choices'', JArr [JObj
                     [(''message'', JObj [(''role'', JStr ''assistant''),
                                          (''content'', dict_get d ''completion'' (JStr ''''))]),
                      (''finish_reason'', JStr ''stop'')]]),
                  (''model'', JStr (model request))])
           | _ \<Rightarrow> Inl AttributeError))"

text \<open>
  The handler. The source file ends at the header of the \<^verbatim>\<open>except Exception\<close>
  clause, so what the clause does with the exception it catches is the parameter
  \<open>except_clause\<close>. The first component of the result is the list of backend calls the
  handler made, each with its \<^verbatim>\<open>modelId\<close> and body.
\<close>

definition chat_completion ::
  "(py_exception \<Rightarrow> 'e) \<Rightarrow> backend \<Rightarrow> ChatRequest \<Rightarrow> (string \<times> json) list \<times> ('e + json)" where
  "chat_completion except_clause bedrock request =
     ([(model request, body request)],
      (case try_block bedrock request of
         Inl e \<Rightarrow> Inl (except_clause e)
       | Inr response \<Rightarrow> Inr response))"

text \<open>
  The route \<^verbatim>\<open>POST /v1/chat/completions\<close>: the framework constructs the
  \<^verbatim>\<open>ChatRequest\<close> from the JSON body and calls the handler only when that succeeds.
\<close>

datatype 'e http_result =
    Unprocessable ValidationError
  | Handler_failed 'e
  | Ok_json json

definition post_chat_completions ::
  "validators \<Rightarrow> (py_exception \<Rightarrow> 'e) \<Rightarrow> backend \<Rightarrow> json
     \<Rightarrow> (string \<times> json) list \<times> 'e http_result" where
  "post_chat_completions lib except_clause bedrock input =
     (case parse_ChatRequest lib input of
        Inl err \<Rightarrow> ([], Unprocessable err)
      | Inr request \<Rightarrow>
          (case chat_completion except_clause bedrock request of
             (calls, Inl e) \<Rightarrow> (calls, Handler_failed e)
           | (calls, Inr response) \<Rightarrow> (calls, Ok_json response)))"

subsection \<open>Failure rendering\<close>

datatype error_kind =
    K_ValidationError
  | K_UnknownModelError
  | K_TransportError
  | K_ProtocolError
  | K_StreamInterruptedError
  | K_InternalError

record GatewayError =
  kind :: error_kind
  message :: string
  retriable :: bool

text \<open>A timeout of the backend call, as the backend client reports it.\<close>

definition is_timeout :: "py_exception \<Rightarrow> bool" where
  "is_timeout e = (e = ReadTimeoutError \<or> e = ConnectTimeoutError)"

text \<open>
  Modelled from the spec: the body of the \<^verbatim>\<open>except Exception\<close> clause of
  \<^verbatim>\<open>chat_completion\<close>, which is missing from the source file (the file ends at the
  clause's header). The spec's error taxonomy says that a failure of the backend call is
  classified and rendered as the canonical error envelope, and that a timeout is a
  transport failure that may be retried. How the other exceptions are classified, and
  the text of the message, the spec leaves to the implementation: they are the
  parameters \<open>classify_other\<close> and \<open>sanitize\<close>.
\<close>

definition render_failure ::
  "(py_exception \<Rightarrow> GatewayError) \<Rightarrow> (py_exception \<Rightarrow> string) \<Rightarrow> py_exception \<Rightarrow> GatewayError" where
  "render_failure classify_other sanitize e =
     (if is_timeout e
      then \<lparr>kind = K_TransportError, message = sanitize e, retriable = True\<rparr>
      else classify_other e)"

subsection \<open>Reading a response as a stream of deltas\<close>

text \<open>
  The spec's streamed response is a sequence of events, each a \<^verbatim>\<open>ChatDelta\<close> with a
  \<^verbatim>\<open>content_fragment\<close>. What the route emits is the events of its result: the one
  JSON body when the handler returned, nothing otherwise. The fragments of a sequence of
  events are the values under the key \<^verbatim>\<open>content_fragment\<close> of the events that have
  one, and their concatenation is the text they spell.
\<close>

definition emitted :: "'e http_result \<Rightarrow> json list" where
  "emitted r = (case r of Ok_json response \<Rightarrow> [response] | _ \<Rightarrow> [])"

definition content_fragments :: "json list \<Rightarrow> json list" where
  "content_fragments events =
     concat (map (\<lambda>ev. case ev of
                         JObj d \<Rightarrow> (case map_of d ''content_fragment'' of
                                     Some v \<Rightarrow> [v] | None \<Rightarrow> [])
                       | _ \<Rightarrow> []) events)"

definition concat_text :: "json list \<Rightarrow> string" where
  "concat_text vs = concat (map (\<lambda>v. case v of JStr s \<Rightarrow> s | _ \<Rightarrow> []) vs)"

text \<open>\<^verbatim>\<open>response["choices"][0]["message"]["content"]\<close>, when the response has that shape.\<close>

definition response_content :: "json \<Rightarrow> json option" where
  "response_content response =
     (case response of
        JObj d \<Rightarrow>
          (case map_of d ''choices'' of
             Some (JArr (JObj c # _)) \<Rightarrow>
               (case map_of c ''message'' of
                  Some (JObj m) \<Rightarrow> map_of m ''content''
                | _ \<Rightarrow> None)
           | _ \<Rightarrow> None)
      | _ \<Rightarrow> None)"

section \<open>Provisioning the store (docker/open-webui/init.py)\<close>

subsection \<open>Configuration\<close>

text \<open>\<^verbatim>\<open>os.environ.get(name)\<close> and \<^verbatim>\<open>os.environ.get(name, default)\<close>.\<close>

type_synonym environ = "string \<rightharpoonup> string"

definition ADMIN_EMAIL :: "environ \<Rightarrow> string" where
  "ADMIN_EMAIL environ =
     (case environ ''ADMIN_EMAIL'' of None \<Rightarrow> ''admin@example.com'' | Some v \<Rightarrow> v)"

definition ADMIN_PASSWORD :: "environ \<Rightarrow> string option" where
  "ADMIN_PASSWORD environ = environ ''ADMIN_PASSWORD''"

definition BEDROCK_ENDPOINT :: "environ \<Rightarrow> string option" where
  "BEDROCK_ENDPOINT environ = environ ''BEDROCK_GATEWAY_URL''"

subsection \<open>What the program does, step by step\<close>

text \<open>
  The effects of a run in the order they happen: a call of \<^verbatim>\<open>psycopg2.connect\<close>,
  a printed line, a sleep, a statement handed to \<^verbatim>\<open>cur.execute\<close>, a commit, and
  the closing of the connection. \<open>Print_retry n m\<close> is the line
  \<^verbatim>\<open>Database not ready, waiting... (n/m)\<close>.
\<close>

datatype stmt =
    CREATE_TABLE_users
  | CREATE_TABLE_models
  | CREATE_TABLE_settings
  | SELECT_COUNT_users string
  | INSERT_users string string string string
  | INSERT_models string string string "string option"
  | INSERT_settings string "string option"

datatype event =
    Connect
  | Print string
  | Print_retry nat nat
  | Sleep nat
  | Execute stmt
  | Commit
  | Close

text \<open>A call of \<^verbatim>\<open>psycopg2.connect\<close> returns a connection or raises.\<close>

datatype connect_result = Connected | Connect_raises py_exception

subsection \<open>Waiting for the database\<close>

text \<open>
  \<^verbatim>\<open>
  def wait_for_db():
      max_retries = 30
      retry_count = 0
      while retry_count < max_retries:
          try:
              conn = psycopg2.connect(...)
              conn.close()
              print("Database is ready!")
              return True
          except psycopg2.OperationalError:
              retry_count += 1
              print(f"Database not ready, waiting... ({retry_count}/{max_retries})")
              time.sleep(2)
      raise Exception("Database not available after maximum retries")
  \<close>
  The server is outside the program: \<open>connect k\<close> is the outcome of the connection
  attempted while \<^verbatim>\<open>retry_count\<close> is \<open>k\<close>. Only \<^verbatim>\<open>OperationalError\<close> is caught;
  any other exception leaves the function at once.
\<close>

definition max_retries :: nat where
  "max_retries = 30"

function wait_for_db_loop :: "(nat \<Rightarrow> connect_result) \<Rightarrow> nat \<Rightarrow> event list \<times> (py_exception + bool)" where
  "wait_for_db_loop connect retry_count =
     (if retry_count < max_retries then
        (case connect retry_count of
           Connected \<Rightarrow> ([Connect, Close, Print ''Database is ready!''], Inr True)
         | Connect_raises e \<Rightarrow>
             (if e = OperationalError then
                (case wait_for_db_loop connect (Suc retry_count) of
                   (rest, result) \<Rightarrow>
                     ([Connect, Print_retry (Suc retry_count) max_retries, Sleep 2] @ rest, result))
              else ([Connect], Inl e)))
      else ([], Inl (Exception ''Database not available after maximum retries'')))"
  by pat_completeness auto
termination
  by (relation "measure (\<lambda>(connect, retry_count). max_retries - retry_count)") auto

declare wait_for_db_loop.simps [simp del]

definition wait_for_db :: "(nat \<Rightarrow> connect_result) \<Rightarrow> event list \<times> (py_exception + bool)" where
  "wait_for_db connect = wait_for_db_loop connect 0"

text \<open>The number of connection attempts in a run.\<close>

definition attempts :: "event list \<Rightarrow> nat" where
  "attempts evs = length (filter (\<lambda>ev. ev = Connect) evs)"

subsection \<open>The store\<close>

text \<open>
  The three tables as the \<^verbatim>\<open>CREATE TABLE\<close> statements declare them, a row as a
  record of its columns. A table that does not exist is \<open>None\<close>. The columns with a
  default the program never sets (\<^verbatim>\<open>id\<close>, the timestamps) take the server's value:
  \<open>gen_random_uuid pg n\<close> is the \<open>n\<close>-th identifier the server generates in the
  transaction and \<open>CURRENT_TIMESTAMP pg\<close> the time the transaction started.
\<close>

record users_row =
  users_id :: nat
  users_email :: string
  users_password_hash :: string
  users_name :: "string option"
  users_role :: "string option"
  users_created_at :: nat
  users_updated_at :: nat

record models_row =
  models_id :: nat
  models_name :: string
  models_model_id :: string
  models_api_type :: "string option"
  models_api_base :: "string option"
  models_api_key :: "string option"
  models_created_at :: nat

record settings_row =
  settings_key :: string
  settings_value :: "string option"
  settings_created_at :: nat
  settings_updated_at :: nat

record database =
  users :: "users_row list option"
  models :: "models_row list option"
  settings :: "settings_row list option"

record server =
  gen_random_uuid :: "nat \<Rightarrow> nat"
  CURRENT_TIMESTAMP :: nat

text \<open>
  A connection works on its own copy of the store inside a transaction: \<open>work\<close> is
  that copy, \<open>trace\<close> the effects so far and \<open>generated\<close> the number of identifiers the
  server has generated for it. Only a commit makes the copy the store; a connection
  closed or dropped without one leaves the store as it was.
\<close>

record txn =
  work :: database
  trace :: "event list"
  generated :: nat

type_synonym failure = "event list \<times> py_exception"

definition emit :: "event \<Rightarrow> txn \<Rightarrow> txn" where
  "emit ev t = t\<lparr>trace := trace t @ [ev]\<rparr>"

definition and_then :: "failure + txn \<Rightarrow> (txn \<Rightarrow> failure + txn) \<Rightarrow> failure + txn" where
  "and_then r f = (case r of Inl e \<Rightarrow> Inl e | Inr t \<Rightarrow> f t)"

text \<open>\<^verbatim>\<open>for x in xs: cur.execute(...)\<close>: the first statement that raises ends the loop.\<close>

fun for_each :: "('a \<Rightarrow> txn \<Rightarrow> failure + txn) \<Rightarrow> 'a list \<Rightarrow> txn \<Rightarrow> failure + txn" where
  "for_each f [] t = Inr t"
| "for_each f (x # xs) t = (case f x t of Inl e \<Rightarrow> Inl e | Inr t' \<Rightarrow> for_each f xs t')"

text \<open>\<^verbatim>\<open>CREATE TABLE IF NOT EXISTS\<close>: an existing table is left as it is.\<close>

definition if_not_exists :: "'a list option \<Rightarrow> 'a list option" where
  "if_not_exists table = (case table of None \<Rightarrow> Some [] | Some rows \<Rightarrow> Some rows)"

definition create_users :: "txn \<Rightarrow> txn" where
  "create_users t =
     emit (Execute CREATE_TABLE_users) (t\<lparr>work := (work t)\<lparr>users := if_not_exists (users (work t))\<rparr>\<rparr>)"

definition create_models :: "txn \<Rightarrow> txn" where
  "create_models t =
     emit (Execute CREATE_TABLE_models) (t\<lparr>work := (work t)\<lparr>models := if_not_exists (models (work t))\<rparr>\<rparr>)"

definition create_settings :: "txn \<Rightarrow> txn" where
  "create_settings t =
     emit (Execute CREATE_TABLE_settings)
       (t\<lparr>work := (work t)\<lparr>settings := if_not_exists (settings (work t))\<rparr>\<rparr>)"

text \<open>\<^verbatim>\<open>SELECT COUNT(*) FROM users WHERE email = %s\<close> and \<^verbatim>\<open>cur.fetchone()[0]\<close>.\<close>

definition select_count_users :: "string \<Rightarrow> txn \<Rightarrow> failure + (txn \<times> nat)" where
  "select_count_users email t =
     (let t' = emit (Execute (SELECT_COUNT_users email)) t in
      case users (work t) of
        None \<Rightarrow> Inl (trace t', ProgrammingError)
      | Some rows \<Rightarrow> Inr (t', length (filter (\<lambda>r. users_email r = email) rows)))"

text \<open>
  Storing a string in a \<^verbatim>\<open>VARCHAR(n)\<close> column: a string of at most \<open>n\<close> characters is
  stored as it is; a longer one is cut to \<open>n\<close> characters when all it loses is spaces,
  and refused by the server otherwise. \<^verbatim>\<open>NULL\<close> is stored as it is.
\<close>

definition varchar :: "nat \<Rightarrow> string \<Rightarrow> string option" where
  "varchar n s =
     (if length s \<le> n then Some s
      else if list_all (\<lambda>c. c = CHR '' '') (drop n s) then Some (take n s)
      else None)"

definition varchar_null :: "nat \<Rightarrow> string option \<Rightarrow> string option option" where
  "varchar_null n v = (case v of None \<Rightarrow> Some None | Some s \<Rightarrow> map_option Some (varchar n s))"

text \<open>
  The inserts. The values are fitted to their columns first; then the row must not
  repeat a key: \<^verbatim>\<open>id\<close> is the primary key of \<^verbatim>\<open>users\<close> and of \<^verbatim>\<open>models\<close>, and
  \<^verbatim>\<open>email\<close> is unique in \<^verbatim>\<open>users\<close>.
\<close>

definition insert_users :: "server \<Rightarrow> string \<Rightarrow> string \<Rightarrow> string \<Rightarrow> string \<Rightarrow> txn \<Rightarrow> failure + txn" where
  "insert_users pg email password_hash name_v role_v t =
     (let t' = emit (Execute (INSERT_users email password_hash name_v role_v)) t in
      case users (work t) of
        None \<Rightarrow> Inl (trace t', ProgrammingError)
      | Some rows \<Rightarrow>
          (case (varchar 255 email, varchar 255 password_hash, varchar 255 name_v, varchar 50 role_v) of
             (Some e, Some h, Some n, Some r) \<Rightarrow>
               if list_ex (\<lambda>row. users_id row = gen_random_uuid pg (generated t)
                                 \<or> users_email row = e) rows
               then Inl (trace t', IntegrityError)
               else Inr (t'\<lparr>work := (work t)\<lparr>users := Some (rows @
                      [\<lparr>users_id = gen_random_uuid pg (generated t), users_email = e,
                        users_password_hash = h, users_name = Some n,
                        users_role = Some r, users_created_at = CURRENT_TIMESTAMP pg,
                        users_updated_at = CURRENT_TIMESTAMP pg\<rparr>])\<rparr>,
                    generated := Suc (generated t)\<rparr>)
           | _ \<Rightarrow> Inl (trace t', DataError)))"

definition insert_models ::
  "server \<Rightarrow> string \<Rightarrow> string \<Rightarrow> string \<Rightarrow> string option \<Rightarrow> txn \<Rightarrow> failure + txn" where
  "insert_models pg name model_id api_type api_base t =
     (let t' = emit (Execute (INSERT_models name model_id api_type api_base)) t in
      case models (work t) of
        None \<Rightarrow> Inl (trace t', ProgrammingError)
      | Some rows \<Rightarrow>
          (case (varchar 255 name, varchar 255 model_id, varchar 50 api_type,
                 varchar_null 255 api_base) of
             (Some n, Some m, Some ty, Some base) \<Rightarrow>
               if list_ex (\<lambda>row. models_id row = gen_random_uuid pg (generated t)) rows
               then Inl (trace t', IntegrityError)
               else Inr (t'\<lparr>work := (work t)\<lparr>models := Some (rows @
                      [\<lparr>models_id = gen_random_uuid pg (generated t), models_name = n,
                        models_model_id = m, models_api_type = Some ty,
                        models_api_base = base, models_api_key = None,
                        models_created_at = CURRENT_TIMESTAMP pg\<rparr>])\<rparr>,
                    generated := Suc (generated t)\<rparr>)
           | _ \<Rightarrow> Inl (trace t', DataError)))"

text \<open>
  \<^verbatim>\<open>INSERT INTO settings ... ON CONFLICT (key) DO UPDATE SET value = EXCLUDED.value\<close>:
  a row with the key has its value replaced and nothing else; otherwise a row is added.
  The key is the one fitted to its column; \<^verbatim>\<open>value\<close> is a \<^verbatim>\<open>TEXT\<close> and takes any
  string.
\<close>

fun upsert :: "nat \<Rightarrow> string \<Rightarrow> string option \<Rightarrow> settings_row list \<Rightarrow> settings_row list" where
  "upsert now k v [] =
     [\<lparr>settings_key = k, settings_value = v, settings_created_at = now, settings_updated_at = now\<rparr>]"
| "upsert now k v (r # rs) =
     (if settings_key r = k then r\<lparr>settings_value := v\<rparr> # rs else r # upsert now k v rs)"

definition insert_settings :: "server \<Rightarrow> string \<Rightarrow> string option \<Rightarrow> txn \<Rightarrow> failure + txn" where
  "insert_settings pg k v t =
     (let t' = emit (Execute (INSERT_settings k v)) t in
      case settings (work t) of
        None \<Rightarrow> Inl (trace t', ProgrammingError)
      | Some rows \<Rightarrow>
          (case varchar 255 k of
             Some key \<Rightarrow>
               Inr (t'\<lparr>work := (work t)\<lparr>settings := Some (upsert (CURRENT_TIMESTAMP pg) key v rows)\<rparr>\<rparr>)
           | None \<Rightarrow> Inl (trace t', DataError)))"

subsection \<open>Initialising the store\<close>

definition bedrock_models :: "(string \<times> string) list" where
  "bedrock_models =
     [(''Claude 3 Opus'', ''anthropic.claude-3-opus-20240229-v1:0''),
      (''Claude 3 Sonnet'', ''anthropic.claude-3-sonnet-20240229-v1:0''),
      (''Claude 3 Haiku'', ''anthropic.claude-3-haiku-20240307-v1:0''),
      (''Llama 2 70B'', ''meta.llama2-70b-chat-v1''),
      (''Mistral 7B'', ''mistral.mistral-7b-instruct-v0:2'')]"

text \<open>The dict \<^verbatim>\<open>settings\<close> of the function, as \<^verbatim>\<open>settings.items()\<close> lists it.\<close>

definition settings_items :: "environ \<Rightarrow> (string \<times> string option) list" where
  "settings_items environ =
     [(''auth.enabled'', Some ''true''),
      (''auth.default_role'', Some ''pending''),
      (''ui.default_model'', Some ''anthropic.claude-3-sonnet-20240229-v1:0''),
      (''llm.api_base'', BEDROCK_ENDPOINT environ),
      (''llm.api_type'', Some ''bedrock'')]"

text \<open>
  \<^verbatim>\<open>init_database\<close>, lines 45 to 146. Its arguments are the environment, the server's
  generated values, the hashing of the password (\<open>hashpw\<close>: the encoding, \<^verbatim>\<open>bcrypt.hashpw\<close>
  with the salt it draws, and the decoding, or the exception one of them raises), the outcome
  of the call of \<^verbatim>\<open>psycopg2.connect\<close>, and the store. Its result is the store after
  the run, the effects in order, and \<^verbatim>\<open>None\<close> or the exception that left the
  function. \<^verbatim>\<open>ADMIN_PASSWORD.encode\<close> raises when the variable is not set.
  The store changes only at \<^verbatim>\<open>conn.commit()\<close>.
\<close>

definition init_database ::
  "environ \<Rightarrow> server \<Rightarrow> (string \<Rightarrow> py_exception + string) \<Rightarrow> connect_result \<Rightarrow> database
     \<Rightarrow> database \<times> event list \<times> (py_exception + unit)" where
  "init_database environ pg hashpw conn db =
     (case conn of
        Connect_raises e \<Rightarrow> (db, [Connect], Inl e)
      | Connected \<Rightarrow>
          (let t0 = \<lparr>work = db, trace = [Connect, Print ''Creating database schema...''], generated = 0\<rparr>;
               t1 = create_settings (create_models (create_users t0))
           in case select_count_users (ADMIN_EMAIL environ) t1 of
                Inl (tr, e) \<Rightarrow> (db, tr, Inl e)
              | Inr (t2, count) \<Rightarrow>
                  if count > 0
                  then (db, trace t2 @ [Print ''Database already initialized, skipping...'', Close], Inr ())
                  else
                    (let t3 = emit (Print ''Creating admin user...'') t2 in
                     case ADMIN_PASSWORD environ of
                       None \<Rightarrow> (db, trace t3, Inl AttributeError)
                     | Some password \<Rightarrow>
                         (case hashpw password of
                            Inl e \<Rightarrow> (db, trace t3, Inl e)
                          | Inr password_hash \<Rightarrow>
                              (case
                                 and_then
                                   (insert_users pg (ADMIN_EMAIL environ) password_hash
                                      ''Administrator'' ''admin'' t3)
                                   (\<lambda>t4. and_then
                                      (for_each
                                         (\<lambda>(name, model_id).
                                            insert_models pg name model_id ''bedrock''
                                              (BEDROCK_ENDPOINT environ))
                                         bedrock_models
                                         (emit (Print ''Configuring Bedrock models...'') t4))
                                      (\<lambda>t5. for_each
                                         (\<lambda>(key, value). insert_settings pg key value)
                                         (settings_items environ)
                                         (emit (Print ''Configuring application settings...'') t5)))
                               of
                                 Inl (tr, e) \<Rightarrow> (db, tr, Inl e)
                               | Inr t6 \<Rightarrow>
                                   (work t6,
                                    trace t6 @ [Commit, Close, Print ''Database initialization complete!''],
                                    Inr ()))))))"

section \<open>Fixtures\<close>

text \<open>
  Stand-ins for the outside world, used to run the definitions on concrete inputs:
  validators that take a value only when it already has the declared type, and then
  unchanged (on such a value the library does the same; what else the library
  converts is left out of this stand-in),
  a backend that answers every call with one payload, a backend whose call times out,
  a rendering of the exceptions the spec does not classify, a database server that is
  ready at the \<open>n\<close>-th attempt, and one that never is.
\<close>

definition declared_types :: validators where
  "declared_types =
     \<lparr>str_validator = (\<lambda>v. case v of JStr s \<Rightarrow> Some s | _ \<Rightarrow> None),
      float_validator = (\<lambda>v. case v of JFloat x \<Rightarrow> Some x | _ \<Rightarrow> None),
      int_validator = (\<lambda>v. case v of JInt n \<Rightarrow> Some n | _ \<Rightarrow> None)\<rparr>"

definition fixture :: "json \<Rightarrow> backend" where
  "fixture payload modelId b = Body payload"

definition timing_out :: backend where
  "timing_out modelId b = Raises ReadTimeoutError"

definition unclassified :: "py_exception \<Rightarrow> GatewayError" where
  "unclassified e = \<lparr>kind = K_InternalError, message = ''request failed'', retriable = False\<rparr>"

definition ready_at :: "nat \<Rightarrow> nat \<Rightarrow> connect_result" where
  "ready_at n k = (if k = n then Connected else Connect_raises OperationalError)"

definition never_ready :: "nat \<Rightarrow> connect_result" where
  "never_ready k = Connect_raises OperationalError"

section \<open>Properties of the gateway\<close>

subsection \<open>Joining and parsing\<close>

lemma str_join_Cons:
  "str_join sep (x # xs) = (if xs = [] then x else x @ sep @ str_join sep xs)"
  by (cases xs) simp_all

lemma str_join_append:
  "str_join sep (xs @ ys) =
     (if xs = [] then str_join sep ys
      else if ys = [] then str_join sep xs
      else str_join sep xs @ sep @ str_join sep ys)"
  by (induction xs) (simp_all add: str_join_Cons)

lemma parse_messages_accepts:
  "list_all2 (\<lambda>v msg. \<exists>dv vr vc. v = JObj dv
        \<and> map_of dv ''role'' = Some vr \<and> str_validator lib vr = Some (role msg)
        \<and> map_of dv ''content'' = Some vc \<and> str_validator lib vc = Some (content msg)) vs msgs
   \<Longrightarrow> parse_messages lib i vs = Inr msgs"
proof (induction vs msgs arbitrary: i rule: list_all2_induct)
  case Nil
  show ?case by simp
next
  case (Cons v vs msg msgs)
  from Cons.hyps(1) obtain dv vr vc where v: "v = JObj dv"
    and r: "map_of dv ''role'' = Some vr" "str_validator lib vr = Some (role msg)"
    and c: "map_of dv ''content'' = Some vc" "str_validator lib vc = Some (content msg)"
    by blast
  have "parse_ChatMessage lib v = Inr msg"
    using v r c by (simp add: parse_ChatMessage_def str_field_def)
  then show ?case
    using Cons.IH [of "Suc i"] by (simp add: at_loc_def)
qed

subsection \<open>The handler on a fixture\<close>

text \<open>
  Claim C1. For the request with model \<^verbatim>\<open>claude-3-sonnet\<close>, the single message
  \<^verbatim>\<open>user: hello\<close>, temperature 0.7 and 100 tokens, against a backend fixture whose
  payload has completion \<^verbatim>\<open>Hi there\<close> and native stop reason \<^verbatim>\<open>end_turn\<close>, the
  handler makes one backend call and returns exactly one choice, the assistant message
  \<^verbatim>\<open>Hi there\<close> with finish reason \<^verbatim>\<open>stop\<close>, and the model identifier of the request.
  The finish reason is \<^verbatim>\<open>stop\<close> whatever the native stop reason of the payload is.
\<close>

theorem scenario_1:
  "chat_completion except_clause
     (fixture (JObj [(''completion'', JStr ''Hi there''), (''stop_reason'', JStr ''end_turn'')]))
     \<lparr>model = ''claude-3-sonnet'', messages = [\<lparr>role = ''user'', content = ''hello''\<rparr>],
      temperature = 7 / 10, max_tokens = 100\<rparr>
   = ([(''claude-3-sonnet'',
        JObj [(''prompt'', JStr ''user: hello''), (''max_tokens_to_sample'', JInt 100),
              (''temperature'', JFloat (7 / 10))])],
      Inr (JObj [(''choices'', JArr [JObj
                   [(''message'', JObj [(''role'', JStr ''assistant''), (''content'', JStr ''Hi there'')]),
                    (''finish_reason'', JStr ''stop'')]]),
                 (''model'', JStr ''claude-3-sonnet'')]))
   \<and> (\<forall>native.
        snd (chat_completion except_clause
               (fixture (JObj [(''completion'', JStr ''Hi there''), (''stop_reason'', native)]))
               \<lparr>model = ''claude-3-sonnet'', messages = [\<lparr>role = ''user'', content = ''hello''\<rparr>],
                temperature = 7 / 10, max_tokens = 100\<rparr>)
        = Inr (JObj [(''choices'', JArr [JObj
                   [(''message'', JObj [(''role'', JStr ''assistant''), (''content'', JStr ''Hi there'')]),
                    (''finish_reason'', JStr ''stop'')]]),
                 (''model'', JStr ''claude-3-sonnet'')]))"
  by (simp add: chat_completion_def try_block_def body_def prompt_def render_def dict_get_def
        fixture_def)

text \<open>
  Claim C2. What the handler sends to the backend is a function of the request alone:
  one call, with the request's model identifier and the body built from the request.
  The prompt in that body holds every message of the request in the request's order:
  a message is rendered as its role, a colon and a space, and its content; the
  rendering stands after the prompt of the messages before it and before the prompt of
  the messages after it, separated from each by one newline.
\<close>

theorem prompt_keeps_messages:
  "fst (chat_completion except_clause bedrock request) = [(model request, body request)]
   \<and> body request = JObj [(''prompt'', JStr (prompt request)),
           (''max_tokens_to_sample'', JInt (max_tokens request)),
           (''temperature'', JFloat (temperature request))]
   \<and> prompt (request\<lparr>messages := earlier @ msg # later\<rparr>) =
       (if earlier = [] then [] else prompt (request\<lparr>messages := earlier\<rparr>) @ [CHR 0x0A])
       @ role msg @ '': '' @ content msg
       @ (if later = [] then [] else [CHR 0x0A] @ prompt (request\<lparr>messages := later\<rparr>))"
  by (simp add: chat_completion_def body_def prompt_def str_join_append str_join_Cons render_def)

subsection \<open>Constructing a request\<close>

text \<open>
  The classes check types and nothing else. A request with no message is constructed,
  and so is one whose message has the role \<^verbatim>\<open>tool\<close> and whose \<^verbatim>\<open>max_tokens\<close> is 0.
\<close>

theorem construction_counterexample:
  "parse_ChatRequest declared_types
     (JObj [(''model'', JStr ''claude-3-sonnet''), (''messages'', JArr [])])
     = Inr \<lparr>model = ''claude-3-sonnet'', messages = [], temperature = 7 / 10, max_tokens = 1000\<rparr>
   \<and> parse_ChatRequest declared_types
       (JObj [(''model'', JStr ''claude-3-sonnet''),
              (''messages'', JArr [JObj [(''role'', JStr ''tool''), (''content'', JStr ''hello'')]]),
              (''max_tokens'', JInt 0)])
     = Inr \<lparr>model = ''claude-3-sonnet'', messages = [\<lparr>role = ''tool'', content = ''hello''\<rparr>],
            temperature = 7 / 10, max_tokens = 0\<rparr>"
  by (simp add: parse_ChatRequest_def str_field_def messages_field_def float_field_def
        int_field_def at_loc_def parse_ChatMessage_def declared_types_def)

text \<open>
  Claim C3, as the code has it. Constructing a \<^verbatim>\<open>ChatRequest\<close> succeeds whenever the
  input is an object in which \<^verbatim>\<open>model\<close> is a value the library takes for a string,
  \<^verbatim>\<open>messages\<close> is a list, empty or not, of objects whose \<^verbatim>\<open>role\<close> and \<^verbatim>\<open>content\<close> the
  library takes for strings, \<^verbatim>\<open>temperature\<close> is absent or a value the library takes for
  a float, and \<^verbatim>\<open>max_tokens\<close> is absent or a value the library takes for an integer.
  The request holds the values so taken, and 0.7 and 1000 for the two when absent.
  Nothing else is checked: not the number of messages, not which string the role is,
  not the sign of the token limit.
\<close>

theorem construction_checks_types_only:
  assumes "map_of d ''model'' = Some vm" and "str_validator lib vm = Some m"
    and "map_of d ''messages'' = Some (JArr vs)" and "length vs = length msgs"
    and "\<forall>i<length msgs. \<exists>dv vr vc. vs ! i = JObj dv
           \<and> map_of dv ''role'' = Some vr \<and> str_validator lib vr = Some (role (msgs ! i))
           \<and> map_of dv ''content'' = Some vc \<and> str_validator lib vc = Some (content (msgs ! i))"
    and "(case map_of d ''temperature'' of
            None \<Rightarrow> Some (7 / 10) | Some v \<Rightarrow> float_validator lib v) = Some t"
    and "(case map_of d ''max_tokens'' of
            None \<Rightarrow> Some 1000 | Some v \<Rightarrow> int_validator lib v) = Some n"
  shows "parse_ChatRequest lib (JObj d)
           = Inr \<lparr>model = m, messages = msgs, temperature = t, max_tokens = n\<rparr>"
proof -
  have "list_all2 (\<lambda>v msg. \<exists>dv vr vc. v = JObj dv
        \<and> map_of dv ''role'' = Some vr \<and> str_validator lib vr = Some (role msg)
        \<and> map_of dv ''content'' = Some vc \<and> str_validator lib vc = Some (content msg)) vs msgs"
    using assms(4,5) by (simp add: list_all2_conv_all_nth)
  then have ms: "messages_field lib d = Inr msgs"
    using assms(3) by (simp add: messages_field_def parse_messages_accepts at_loc_def)
  have m: "str_field lib d ''model'' = Inr m"
    using assms(1,2) by (simp add: str_field_def)
  have t: "float_field lib d ''temperature'' (7 / 10) = Inr t"
    using assms(6) by (auto simp add: float_field_def split: option.splits)
  have n: "int_field lib d ''max_tokens'' 1000 = Inr n"
    using assms(7) by (auto simp add: int_field_def split: option.splits)
  show ?thesis
    by (simp add: parse_ChatRequest_def m ms t n)
qed

theorem construction_checks_types_only_witness:
  "parse_ChatRequest declared_types
     (JObj [(''model'', JStr ''unknown-model-xyz''),
            (''messages'', JArr [JObj [(''role'', JStr ''function''), (''content'', JStr ''hi'')]]),
            (''max_tokens'', JInt (- 5))])
     = Inr \<lparr>model = ''unknown-model-xyz'', messages = [\<lparr>role = ''function'', content = ''hi''\<rparr>],
            temperature = 7 / 10, max_tokens = - 5\<rparr>"
proof -
  let ?vs = "[JObj [(''role'', JStr ''function''), (''content'', JStr ''hi'')]]"
  let ?msgs = "[\<lparr>role = ''function'', content = ''hi''\<rparr>]"
  let ?d = "[(''model'', JStr ''unknown-model-xyz''), (''messages'', JArr ?vs),
             (''max_tokens'', JInt (- 5))]"
  have a: "map_of ?d ''model'' = Some (JStr ''unknown-model-xyz'')"
    by simp
  have b: "str_validator declared_types (JStr ''unknown-model-xyz'') = Some ''unknown-model-xyz''"
    by (simp add: declared_types_def)
  have c: "map_of ?d ''messages'' = Some (JArr ?vs)"
    by simp
  have e: "length ?vs = length ?msgs"
    by simp
  have f: "\<forall>i<length ?msgs. \<exists>dv vr vc. ?vs ! i = JObj dv
           \<and> map_of dv ''role'' = Some vr
           \<and> str_validator declared_types vr = Some (role (?msgs ! i))
           \<and> map_of dv ''content'' = Some vc
           \<and> str_validator declared_types vc = Some (content (?msgs ! i))"
    by (simp add: declared_types_def)
  have g: "(case map_of ?d ''temperature'' of
              None \<Rightarrow> Some (7 / 10) | Some v \<Rightarrow> float_validator declared_types v) = Some (7 / 10)"
    by simp
  have h: "(case map_of ?d ''max_tokens'' of
              None \<Rightarrow> Some 1000 | Some v \<Rightarrow> int_validator declared_types v) = Some (- 5)"
    by (simp add: declared_types_def)
  show ?thesis
    by (rule construction_checks_types_only [OF a b c e f g h])
qed

text \<open>
  Claim C5. Validation is a function of the input alone. Handling the same input twice,
  with any two backends and any two exception clauses, either rejects it both times
  with the same validation error and without a backend call, or constructs the same
  request both times and hands it to the backend.
\<close>

theorem validation_is_pure:
  "(\<exists>err. parse_ChatRequest lib input = Inl err
          \<and> post_chat_completions lib except_clause1 bedrock1 input = ([], Unprocessable err)
          \<and> post_chat_completions lib except_clause2 bedrock2 input = ([], Unprocessable err))
   \<or> (\<exists>request. parse_ChatRequest lib input = Inr request
          \<and> fst (post_chat_completions lib except_clause1 bedrock1 input)
              = [(model request, body request)]
          \<and> fst (post_chat_completions lib except_clause2 bedrock2 input)
              = [(model request, body request)])"
  by (cases "parse_ChatRequest lib input")
     (simp_all add: post_chat_completions_def chat_completion_def split: sum.splits)

subsection \<open>Model identifiers\<close>

text \<open>
  The handler has no registry of adapters. The identifier \<^verbatim>\<open>unknown-model-xyz\<close> is
  sent to the backend as it is, and the answer of the backend is returned under it.
\<close>

theorem unknown_model_counterexample:
  "chat_completion id (fixture (JObj [(''completion'', JStr ''Hi there'')]))
     \<lparr>model = ''unknown-model-xyz'', messages = [\<lparr>role = ''user'', content = ''hello''\<rparr>],
      temperature = 7 / 10, max_tokens = 100\<rparr>
   = ([(''unknown-model-xyz'',
        JObj [(''prompt'', JStr ''user: hello''), (''max_tokens_to_sample'', JInt 100),
              (''temperature'', JFloat (7 / 10))])],
      Inr (JObj [(''choices'', JArr [JObj
                   [(''message'', JObj [(''role'', JStr ''assistant''), (''content'', JStr ''Hi there'')]),
                    (''finish_reason'', JStr ''stop'')]]),
                 (''model'', JStr ''unknown-model-xyz'')]))"
  by (simp add: chat_completion_def try_block_def body_def prompt_def render_def dict_get_def
        fixture_def)

text \<open>
  Claim C4, as the code has it. For every model identifier the handler makes exactly
  one backend call, and its \<^verbatim>\<open>modelId\<close> is the identifier of the request, unchanged.
  No identifier is refused by the handler itself: when the backend answers with a JSON
  object, the handler returns a response that carries the identifier of the request.
\<close>

theorem every_model_identifier_is_forwarded:
  "map fst (fst (chat_completion except_clause bedrock request)) = [model request]
   \<and> snd (chat_completion except_clause (fixture (JObj d)) request)
       = Inr (JObj [(''choices'', JArr [JObj
                   [(''message'', JObj [(''role'', JStr ''assistant''),
                                        (''content'', dict_get d ''completion'' (JStr ''''))]),
                    (''finish_reason'', JStr ''stop'')]]),
                 (''model'', JStr (model request))])"
  by (simp add: chat_completion_def try_block_def fixture_def)

subsection \<open>Failures of the backend call\<close>

text \<open>
  Claim C6. When the backend call raises a timeout, the handler, with the exception
  clause rendering failures as the spec's taxonomy says, returns the error envelope of
  kind \<^verbatim>\<open>TransportError\<close> with \<^verbatim>\<open>retriable\<close> true.
\<close>

theorem timeout_is_retriable_transport_error:
  assumes "bedrock (model request) (body request) = Raises e" and "is_timeout e"
  shows "snd (chat_completion (render_failure classify_other sanitize) bedrock request)
           = Inl \<lparr>kind = K_TransportError, message = sanitize e, retriable = True\<rparr>"
  using assms by (simp add: chat_completion_def try_block_def render_failure_def)

theorem timeout_is_retriable_transport_error_witness:
  "snd (chat_completion (render_failure unclassified (message \<circ> unclassified)) timing_out
          \<lparr>model = ''claude-3-sonnet'', messages = [\<lparr>role = ''user'', content = ''hello''\<rparr>],
           temperature = 7 / 10, max_tokens = 100\<rparr>)
     = Inl \<lparr>kind = K_TransportError, message = ''request failed'', retriable = True\<rparr>"
proof -
  let ?request = "\<lparr>model = ''claude-3-sonnet'', messages = [\<lparr>role = ''user'', content = ''hello''\<rparr>],
           temperature = 7 / 10, max_tokens = 100\<rparr>"
  have a: "timing_out (model ?request) (body ?request) = Raises ReadTimeoutError"
    by (simp add: timing_out_def)
  have b: "is_timeout ReadTimeoutError"
    by (simp add: is_timeout_def)
  show ?thesis
    using timeout_is_retriable_transport_error
            [of timing_out ?request ReadTimeoutError unclassified "message \<circ> unclassified", OF a b]
    by (simp add: unclassified_def)
qed

subsection \<open>Streaming\<close>

text \<open>
  The request class has no \<^verbatim>\<open>stream\<close> field and the handler has one way of answering.
  For a request with \<^verbatim>\<open>stream\<close> true the route emits no delta, so the fragments spell
  the empty text, while the content of the answer without streaming is \<^verbatim>\<open>Hi there\<close>.
\<close>

theorem streaming_counterexample:
  "concat_text (content_fragments (emitted (snd (post_chat_completions declared_types id
       (fixture (JObj [(''completion'', JStr ''Hi there''), (''stop_reason'', JStr ''end_turn'')]))
       (JObj [(''model'', JStr ''claude-3-sonnet''),
              (''messages'', JArr [JObj [(''role'', JStr ''user''), (''content'', JStr ''hello'')]]),
              (''stream'', JBool True)]))))) = []
   \<and> map response_content (emitted (snd (post_chat_completions declared_types id
       (fixture (JObj [(''completion'', JStr ''Hi there''), (''stop_reason'', JStr ''end_turn'')]))
       (JObj [(''model'', JStr ''claude-3-sonnet''),
              (''messages'', JArr [JObj [(''role'', JStr ''user''), (''content'', JStr ''hello'')]]),
              (''stream'', JBool False)])))) = [Some (JStr ''Hi there'')]"
  by (simp add: post_chat_completions_def parse_ChatRequest_def str_field_def messages_field_def
        float_field_def int_field_def at_loc_def parse_ChatMessage_def declared_types_def chat_completion_def
        try_block_def dict_get_def fixture_def emitted_def content_fragments_def concat_text_def
        response_content_def)

lemma parse_ignores_stream:
  "parse_ChatRequest lib (JObj ((''stream'', flag) # d)) = parse_ChatRequest lib (JObj d)"
  by (simp add: parse_ChatRequest_def str_field_def messages_field_def float_field_def
        int_field_def)

text \<open>
  Claim C7, as the code has it. A \<^verbatim>\<open>stream\<close> key in the input is ignored: the route
  makes the same backend call and gives the same single, complete answer with the key,
  whatever its value, as without it. No answer of the route carries a content
  fragment.
\<close>

theorem stream_flag_is_ignored:
  "post_chat_completions lib except_clause bedrock (JObj ((''stream'', flag) # d))
     = post_chat_completions lib except_clause bedrock (JObj d)
   \<and> content_fragments (emitted (snd (post_chat_completions lib except_clause bedrock input))) = []"
  by (simp add: post_chat_completions_def parse_ignores_stream chat_completion_def emitted_def
        content_fragments_def try_block_def
      split: sum.splits backend_outcome.splits json.splits)

subsection \<open>A payload without a completion\<close>

text \<open>
  Claim C8. When the backend answers with a JSON object that has no \<^verbatim>\<open>completion\<close>
  key, the handler returns a response whose one choice has the empty string as content
  and the finish reason \<^verbatim>\<open>stop\<close>; the missing key is not an error.
\<close>

theorem missing_completion_gives_empty_content:
  assumes "bedrock (model request) (body request) = Body (JObj d)"
    and "map_of d ''completion'' = None"
  shows "snd (chat_completion except_clause bedrock request)
           = Inr (JObj [(''choices'', JArr [JObj
                   [(''message'', JObj [(''role'', JStr ''assistant''), (''content'', JStr '''')]),
                    (''finish_reason'', JStr ''stop'')]]),
                 (''model'', JStr (model request))])"
  using assms by (simp add: chat_completion_def try_block_def dict_get_def)

theorem missing_completion_gives_empty_content_witness:
  "snd (chat_completion id (fixture (JObj [(''stop_reason'', JStr ''end_turn'')]))
          \<lparr>model = ''claude-3-sonnet'', messages = [\<lparr>role = ''user'', content = ''hello''\<rparr>],
           temperature = 7 / 10, max_tokens = 100\<rparr>)
     = Inr (JObj [(''choices'', JArr [JObj
                   [(''message'', JObj [(''role'', JStr ''assistant''), (''content'', JStr '''')]),
                    (''finish_reason'', JStr ''stop'')]]),
                 (''model'', JStr ''claude-3-sonnet'')])"
proof -
  let ?request = "\<lparr>model = ''claude-3-sonnet'', messages = [\<lparr>role = ''user'', content = ''hello''\<rparr>],
           temperature = 7 / 10, max_tokens = 100\<rparr>"
  let ?d = "[(''stop_reason'', JStr ''end_turn'')]"
  have a: "fixture (JObj ?d) (model ?request) (body ?request) = Body (JObj ?d)"
    by (simp add: fixture_def)
  have b: "map_of ?d ''completion'' = None"
    by simp
  show ?thesis
    using missing_completion_gives_empty_content [of "fixture (JObj ?d)" ?request ?d id, OF a b]
    by simp
qed

section \<open>Properties of the provisioning script\<close>

subsection \<open>An initialised store is left alone\<close>

lemma filter_nonempty: "\<exists>r\<in>set rows. P r \<Longrightarrow> 0 < length (filter P rows)"
  by (simp add: filter_empty_conv)

text \<open>
  Claim C9. When the \<^verbatim>\<open>users\<close> table has a row whose email is \<^verbatim>\<open>ADMIN_EMAIL\<close>,
  \<^verbatim>\<open>init_database\<close> returns after the existence check: it executes the three
  \<^verbatim>\<open>CREATE TABLE IF NOT EXISTS\<close> statements and the count, no insert and no commit,
  closes the connection, and leaves the store exactly as it was.
\<close>

theorem init_database_already_initialized:
  assumes "users db = Some rows" and "\<exists>r\<in>set rows. users_email r = ADMIN_EMAIL environ"
  shows "init_database environ pg hashpw Connected db =
           (db,
            [Connect, Print ''Creating database schema...'',
             Execute CREATE_TABLE_users, Execute CREATE_TABLE_models, Execute CREATE_TABLE_settings,
             Execute (SELECT_COUNT_users (ADMIN_EMAIL environ)),
             Print ''Database already initialized, skipping...'', Close],
            Inr ())"
  using assms(1) filter_nonempty [OF assms(2)]
  by (simp add: init_database_def select_count_users_def create_users_def create_models_def
        create_settings_def emit_def if_not_exists_def Let_def)

theorem init_database_already_initialized_witness:
  "init_database Map.empty \<lparr>gen_random_uuid = id, CURRENT_TIMESTAMP = 0\<rparr> Inr Connected
     \<lparr>users = Some [\<lparr>users_id = 7, users_email = ''admin@example.com'',
                       users_password_hash = ''$2b$12$hash'', users_name = Some ''Administrator'',
                       users_role = Some ''admin'', users_created_at = 1, users_updated_at = 1\<rparr>],
      models = None, settings = None\<rparr>
   = (\<lparr>users = Some [\<lparr>users_id = 7, users_email = ''admin@example.com'',
                       users_password_hash = ''$2b$12$hash'', users_name = Some ''Administrator'',
                       users_role = Some ''admin'', users_created_at = 1, users_updated_at = 1\<rparr>],
       models = None, settings = None\<rparr>,
      [Connect, Print ''Creating database schema...'',
       Execute CREATE_TABLE_users, Execute CREATE_TABLE_models, Execute CREATE_TABLE_settings,
       Execute (SELECT_COUNT_users ''admin@example.com''),
       Print ''Database already initialized, skipping...'', Close],
      Inr ())"
proof -
  let ?row = "\<lparr>users_id = 7, users_email = ''admin@example.com'',
                users_password_hash = ''$2b$12$hash'', users_name = Some ''Administrator'',
                users_role = Some ''admin'', users_created_at = 1, users_updated_at = 1\<rparr>"
  let ?db = "\<lparr>users = Some [?row], models = None, settings = None\<rparr>"
  have a: "users ?db = Some [?row]"
    by simp
  have b: "\<exists>r\<in>set [?row]. users_email r = ADMIN_EMAIL Map.empty"
    by (simp add: ADMIN_EMAIL_def)
  show ?thesis
    using init_database_already_initialized
            [of ?db "[?row]" Map.empty "\<lparr>gen_random_uuid = id, CURRENT_TIMESTAMP = 0\<rparr>" Inr, OF a b]
    by (simp add: ADMIN_EMAIL_def)
qed

subsection \<open>Waiting ends\<close>

lemma attempts_Nil [simp]: "attempts [] = 0"
  by (simp add: attempts_def)

lemma attempts_append [simp]: "attempts (xs @ ys) = attempts xs + attempts ys"
  by (simp add: attempts_def)

lemma attempts_Cons [simp]: "attempts (ev # evs) = (if ev = Connect then 1 else 0) + attempts evs"
  by (simp add: attempts_def)

lemma loop_attempts_le: "attempts (fst (wait_for_db_loop connect k)) \<le> max_retries - k"
proof (induction connect k rule: wait_for_db_loop.induct)
  case (1 connect k)
  show ?case
  proof (cases "k < max_retries")
    case False
    then show ?thesis by (subst wait_for_db_loop.simps) simp
  next
    case True
    show ?thesis
    proof (cases "connect k")
      case Connected
      with True show ?thesis by (subst wait_for_db_loop.simps) simp
    next
      case (Connect_raises e)
      show ?thesis
      proof (cases "e = OperationalError")
        case False
        with True Connect_raises show ?thesis by (subst wait_for_db_loop.simps) simp
      next
        case op: True
        from "1.IH" [OF True Connect_raises op]
        have ih: "attempts (fst (wait_for_db_loop connect (Suc k))) \<le> max_retries - Suc k" .
        obtain rest result where r: "wait_for_db_loop connect (Suc k) = (rest, result)"
          by (cases "wait_for_db_loop connect (Suc k)")
        have ck: "connect k = Connect_raises OperationalError"
          using Connect_raises op by simp
        have "wait_for_db_loop connect k =
                ([Connect, Print_retry (Suc k) max_retries, Sleep 2] @ rest, result)"
          using True ck r by (subst wait_for_db_loop.simps) simp
        moreover have "attempts rest \<le> max_retries - Suc k"
          using ih r by simp
        ultimately show ?thesis
          using True by simp
      qed
    qed
  qed
qed

lemma loop_success:
  "k \<le> m \<Longrightarrow> m < max_retries \<Longrightarrow> connect m = Connected
   \<Longrightarrow> (\<And>j. k \<le> j \<Longrightarrow> j < m \<Longrightarrow> connect j = Connect_raises OperationalError)
   \<Longrightarrow> snd (wait_for_db_loop connect k) = Inr True
       \<and> attempts (fst (wait_for_db_loop connect k)) = Suc (m - k)"
proof (induction "m - k" arbitrary: k)
  case 0
  then have "k = m" by simp
  with 0 show ?case by (subst (1 2) wait_for_db_loop.simps) simp
next
  case (Suc d)
  then have lt: "k < m" and ck: "connect k = Connect_raises OperationalError" by simp_all
  have "snd (wait_for_db_loop connect (Suc k)) = Inr True
       \<and> attempts (fst (wait_for_db_loop connect (Suc k))) = Suc (m - Suc k)"
    using Suc.hyps(1) [of "Suc k"] Suc.hyps(2) Suc.prems lt by simp
  with lt ck Suc.prems(2) show ?case
    by (subst (1 2) wait_for_db_loop.simps) (simp add: split_beta Suc_diff_Suc)
qed

lemma loop_exhausted:
  "k \<le> max_retries
   \<Longrightarrow> (\<And>j. k \<le> j \<Longrightarrow> j < max_retries \<Longrightarrow> connect j = Connect_raises OperationalError)
   \<Longrightarrow> snd (wait_for_db_loop connect k) = Inl (Exception ''Database not available after maximum retries'')
       \<and> attempts (fst (wait_for_db_loop connect k)) = max_retries - k"
proof (induction "max_retries - k" arbitrary: k)
  case 0
  then show ?case by (subst (1 2) wait_for_db_loop.simps) simp
next
  case (Suc d)
  then have lt: "k < max_retries" and ck: "connect k = Connect_raises OperationalError" by simp_all
  have "snd (wait_for_db_loop connect (Suc k)) = Inl (Exception ''Database not available after maximum retries'')
       \<and> attempts (fst (wait_for_db_loop connect (Suc k))) = max_retries - Suc k"
    using Suc.hyps(1) [of "Suc k"] Suc.hyps(2) Suc.prems lt by simp
  with lt ck show ?case
    by (subst (1 2) wait_for_db_loop.simps) (simp add: split_beta Suc_diff_Suc)
qed

text \<open>
  Claim C10. \<^verbatim>\<open>wait_for_db\<close> always returns or raises, after at most 30 connection
  attempts. When the first attempt that does not fail with an operational error is a
  successful one, the \<open>k\<close>-th say, it returns \<^verbatim>\<open>True\<close> after exactly these attempts.
  When all 30 attempts fail with an operational error it raises the exception
  \<^verbatim>\<open>Database not available after maximum retries\<close>.
\<close>

theorem wait_for_db_bounded:
  "attempts (fst (wait_for_db connect)) \<le> 30
   \<and> (\<forall>k<30. (\<forall>j<k. connect j = Connect_raises OperationalError) \<and> connect k = Connected
        \<longrightarrow> snd (wait_for_db connect) = Inr True \<and> attempts (fst (wait_for_db connect)) = Suc k)
   \<and> ((\<forall>j<30. connect j = Connect_raises OperationalError)
        \<longrightarrow> snd (wait_for_db connect) = Inl (Exception ''Database not available after maximum retries'')
            \<and> attempts (fst (wait_for_db connect)) = 30)"
proof (intro conjI allI impI)
  show "attempts (fst (wait_for_db connect)) \<le> 30"
    using loop_attempts_le [of connect 0] by (simp add: wait_for_db_def max_retries_def)
next
  fix k
  assume "k < 30" and h: "(\<forall>j<k. connect j = Connect_raises OperationalError) \<and> connect k = Connected"
  then have "snd (wait_for_db_loop connect 0) = Inr True
       \<and> attempts (fst (wait_for_db_loop connect 0)) = Suc (k - 0)"
    by (intro loop_success) (simp_all add: max_retries_def)
  then show "snd (wait_for_db connect) = Inr True" and "attempts (fst (wait_for_db connect)) = Suc k"
    by (simp_all add: wait_for_db_def)
next
  assume "\<forall>j<30. connect j = Connect_raises OperationalError"
  then have "snd (wait_for_db_loop connect 0) = Inl (Exception ''Database not available after maximum retries'')
       \<and> attempts (fst (wait_for_db_loop connect 0)) = max_retries - 0"
    by (intro loop_exhausted) (simp_all add: max_retries_def)
  then show "snd (wait_for_db connect) = Inl (Exception ''Database not available after maximum retries'')"
    and "attempts (fst (wait_for_db connect)) = 30"
    by (simp_all add: wait_for_db_def max_retries_def)
qed

theorem wait_for_db_bounded_witness:
  "(snd (wait_for_db (ready_at 2)) = Inr True \<and> attempts (fst (wait_for_db (ready_at 2))) = 3)
   \<and> (snd (wait_for_db never_ready)
         = Inl (Exception ''Database not available after maximum retries'')
       \<and> attempts (fst (wait_for_db never_ready)) = 30)"
proof
  have lt: "(2::nat) < 30"
    by simp
  have p: "(\<forall>j<2. ready_at 2 j = Connect_raises OperationalError) \<and> ready_at 2 2 = Connected"
    by (simp add: ready_at_def)
  have "snd (wait_for_db (ready_at 2)) = Inr True
      \<and> attempts (fst (wait_for_db (ready_at 2))) = Suc 2"
    by (rule wait_for_db_bounded
               [of "ready_at 2", THEN conjunct2, THEN conjunct1, rule_format, OF lt p])
  then show "snd (wait_for_db (ready_at 2)) = Inr True
      \<and> attempts (fst (wait_for_db (ready_at 2))) = 3"
    by (simp only: eval_nat_numeral)
next
  have q: "\<forall>j<30. never_ready j = Connect_raises OperationalError"
    by (simp add: never_ready_def)
  show "snd (wait_for_db never_ready)
          = Inl (Exception ''Database not available after maximum retries'')
      \<and> attempts (fst (wait_for_db never_ready)) = 30"
    by (rule wait_for_db_bounded [of never_ready, THEN conjunct2, THEN conjunct2, THEN mp, OF q])
qed

end
